theory Spec2Isabelle
  imports Main "HOL-Library.Word"
begin

unbundle bit_operations_syntax

section \<open>The ext4 superblock feature codec of \<^verbatim>\<open>pkg/sentry/fs/ext4/disklayout/superblock.go\<close>\<close>

text \<open>
  Go's \<^verbatim>\<open>uint32\<close> and \<^verbatim>\<open>uint16\<close> are words of that width. The bit constants of the
  source are untyped Go constants; every use is in a \<^verbatim>\<open>uint32\<close> expression (in a
  \<^verbatim>\<open>uint16\<close> one for the state bits), so they are given that type here.
\<close>

type_synonym uint32 = "32 word"
type_synonym uint16 = "16 word"

text \<open>
  Each \<^verbatim>\<open>ToInt\<close> method starts from \<^verbatim>\<open>var res\<close> (zero) and runs a sequence of
  statements \<^verbatim>\<open>if f.X { res |= SbX }\<close>. One such statement, as a function of the
  value of \<^verbatim>\<open>res\<close> before it:
\<close>

definition or_if :: "bool \<Rightarrow> 'a::len word \<Rightarrow> 'a word \<Rightarrow> 'a word" where
  "or_if cond c res = (if cond then res OR c else res)"

subsection \<open>Superblock compatible features\<close>

definition SbDirPrealloc :: uint32 where "SbDirPrealloc = 0x1"
definition SbImagicInodes :: uint32 where "SbImagicInodes = 0x2"
definition SbHasJournal :: uint32 where "SbHasJournal = 0x4"
definition SbExtAttr :: uint32 where "SbExtAttr = 0x8"
definition SbResizeInode :: uint32 where "SbResizeInode = 0x10"
definition SbDirIndex :: uint32 where "SbDirIndex = 0x20"
definition SbLazyBg :: uint32 where "SbLazyBg = 0x40"
definition SbExcludeInode :: uint32 where "SbExcludeInode = 0x80"
definition SbExcludeBitmap :: uint32 where "SbExcludeBitmap = 0x100"
definition SbSparseV2 :: uint32 where "SbSparseV2 = 0x200"

record CompatFeatures =
  DirPrealloc :: bool
  ImagicInodes :: bool
  HasJournal :: bool
  ExtAttr :: bool
  ResizeInode :: bool
  DirIndex :: bool
  LazyBg :: bool
  ExcludeInode :: bool
  ExcludeBitmap :: bool
  SparseV2 :: bool

definition CompatFeatures_ToInt :: "CompatFeatures \<Rightarrow> uint32" where
  "CompatFeatures_ToInt f =
    (let res = 0;
         res = or_if (DirPrealloc f) SbDirPrealloc res;
         res = or_if (ImagicInodes f) SbImagicInodes res;
         res = or_if (HasJournal f) SbHasJournal res;
         res = or_if (ExtAttr f) SbExtAttr res;
         res = or_if (ResizeInode f) SbResizeInode res;
         res = or_if (DirIndex f) SbDirIndex res;
         res = or_if (LazyBg f) SbLazyBg res;
         res = or_if (ExcludeInode f) SbExcludeInode res;
         res = or_if (ExcludeBitmap f) SbExcludeBitmap res;
         res = or_if (SparseV2 f) SbSparseV2 res
     in res)"

definition CompatFeaturesFromInt :: "uint32 \<Rightarrow> CompatFeatures" where
  "CompatFeaturesFromInt f =
    \<lparr> DirPrealloc = (f AND SbDirPrealloc) > 0,
      ImagicInodes = (f AND SbImagicInodes) > 0,
      HasJournal = (f AND SbHasJournal) > 0,
      ExtAttr = (f AND SbExtAttr) > 0,
      ResizeInode = (f AND SbResizeInode) > 0,
      DirIndex = (f AND SbDirIndex) > 0,
      LazyBg = (f AND SbLazyBg) > 0,
      ExcludeInode = (f AND SbExcludeInode) > 0,
      ExcludeBitmap = (f AND SbExcludeBitmap) > 0,
      SparseV2 = (f AND SbSparseV2) > 0 \<rparr>"

subsection \<open>Superblock incompatible features\<close>

definition SbCompression :: uint32 where "SbCompression = 0x1"
definition SbDirentFileType :: uint32 where "SbDirentFileType = 0x2"
definition SbRecovery :: uint32 where "SbRecovery = 0x4"
definition SbJournalDev :: uint32 where "SbJournalDev = 0x8"
definition SbMetaBG :: uint32 where "SbMetaBG = 0x10"
definition SbExtents :: uint32 where "SbExtents = 0x40"
definition SbIs64Bit :: uint32 where "SbIs64Bit = 0x80"
definition SbMMP :: uint32 where "SbMMP = 0x100"
definition SbFlexBg :: uint32 where "SbFlexBg = 0x200"
definition SbExtAttrInode :: uint32 where "SbExtAttrInode = 0x400"
definition SbDirData :: uint32 where "SbDirData = 0x1000"
definition SbCsumSeed :: uint32 where "SbCsumSeed = 0x2000"
definition SbLargeDir :: uint32 where "SbLargeDir = 0x4000"
definition SbInlineData :: uint32 where "SbInlineData = 0x8000"
definition SbEncrypted :: uint32 where "SbEncrypted = 0x10000"

record IncompatFeatures =
  Compression :: bool
  DirentFileType :: bool
  Recovery :: bool
  JournalDev :: bool
  MetaBG :: bool
  Extents :: bool
  Is64Bit :: bool
  MMP :: bool
  FlexBg :: bool
  ExtAttrInode :: bool
  DirData :: bool
  CsumSeed :: bool
  LargeDir :: bool
  InlineData :: bool
  Encrypted :: bool

definition IncompatFeatures_ToInt :: "IncompatFeatures \<Rightarrow> uint32" where
  "IncompatFeatures_ToInt f =
    (let res = 0;
         res = or_if (Compression f) SbCompression res;
         res = or_if (DirentFileType f) SbDirentFileType res;
         res = or_if (Recovery f) SbRecovery res;
         res = or_if (JournalDev f) SbJournalDev res;
         res = or_if (MetaBG f) SbMetaBG res;
         res = or_if (Extents f) SbExtents res;
         res = or_if (Is64Bit f) SbIs64Bit res;
         res = or_if (MMP f) SbMMP res;
         res = or_if (FlexBg f) SbFlexBg res;
         res = or_if (ExtAttrInode f) SbExtAttrInode res;
         res = or_if (DirData f) SbDirData res;
         res = or_if (CsumSeed f) SbCsumSeed res;
         res = or_if (LargeDir f) SbLargeDir res;
         res = or_if (InlineData f) SbInlineData res;
         res = or_if (Encrypted f) SbEncrypted res
     in res)"

definition IncompatFeaturesFromInt :: "uint32 \<Rightarrow> IncompatFeatures" where
  "IncompatFeaturesFromInt f =
    \<lparr> Compression = (f AND SbCompression) > 0,
      DirentFileType = (f AND SbDirentFileType) > 0,
      Recovery = (f AND SbRecovery) > 0,
      JournalDev = (f AND SbJournalDev) > 0,
      MetaBG = (f AND SbMetaBG) > 0,
      Extents = (f AND SbExtents) > 0,
      Is64Bit = (f AND SbIs64Bit) > 0,
      MMP = (f AND SbMMP) > 0,
      FlexBg = (f AND SbFlexBg) > 0,
      ExtAttrInode = (f AND SbExtAttrInode) > 0,
      DirData = (f AND SbDirData) > 0,
      CsumSeed = (f AND SbCsumSeed) > 0,
      LargeDir = (f AND SbLargeDir) > 0,
      InlineData = (f AND SbInlineData) > 0,
      Encrypted = (f AND SbEncrypted) > 0 \<rparr>"

subsection \<open>Superblock readonly compatible features\<close>

definition SbSparse :: uint32 where "SbSparse = 0x1"
definition SbLargeFile :: uint32 where "SbLargeFile = 0x2"
definition SbBTreeDir :: uint32 where "SbBTreeDir = 0x4"
definition SbHugeFile :: uint32 where "SbHugeFile = 0x8"
definition SbGdtCsum :: uint32 where "SbGdtCsum = 0x10"
definition SbDirNlink :: uint32 where "SbDirNlink = 0x20"
definition SbExtraIsize :: uint32 where "SbExtraIsize = 0x40"
definition SbHasSnapshot :: uint32 where "SbHasSnapshot = 0x80"
definition SbQuota :: uint32 where "SbQuota = 0x100"
definition SbBigalloc :: uint32 where "SbBigalloc = 0x200"
definition SbMetadataCsum :: uint32 where "SbMetadataCsum = 0x400"
definition SbReplica :: uint32 where "SbReplica = 0x800"
definition SbReadOnly :: uint32 where "SbReadOnly = 0x1000"
definition SbProject :: uint32 where "SbProject = 0x2000"

record RoCompatFeatures =
  Sparse :: bool
  LargeFile :: bool
  BTreeDir :: bool
  HugeFile :: bool
  GdtCsum :: bool
  DirNlink :: bool
  ExtraIsize :: bool
  HasSnapshot :: bool
  Quota :: bool
  Bigalloc :: bool
  MetadataCsum :: bool
  Replica :: bool
  ReadOnly :: bool
  Project :: bool

definition RoCompatFeatures_ToInt :: "RoCompatFeatures \<Rightarrow> uint32" where
  "RoCompatFeatures_ToInt f =
    (let res = 0;
         res = or_if (Sparse f) SbSparse res;
         res = or_if (LargeFile f) SbLargeFile res;
         res = or_if (BTreeDir f) SbBTreeDir res;
         res = or_if (HugeFile f) SbHugeFile res;
         res = or_if (GdtCsum f) SbGdtCsum res;
         res = or_if (DirNlink f) SbDirNlink res;
         res = or_if (ExtraIsize f) SbExtraIsize res;
         res = or_if (HasSnapshot f) SbHasSnapshot res;
         res = or_if (Quota f) SbQuota res;
         res = or_if (Bigalloc f) SbBigalloc res;
         res = or_if (MetadataCsum f) SbMetadataCsum res;
         res = or_if (Replica f) SbReplica res;
         res = or_if (ReadOnly f) SbReadOnly res;
         res = or_if (Project f) SbProject res
     in res)"

definition RoCompatFeaturesFromInt :: "uint32 \<Rightarrow> RoCompatFeatures" where
  "RoCompatFeaturesFromInt f =
    \<lparr> Sparse = (f AND SbSparse) > 0,
      LargeFile = (f AND SbLargeFile) > 0,
      BTreeDir = (f AND SbBTreeDir) > 0,
      HugeFile = (f AND SbHugeFile) > 0,
      GdtCsum = (f AND SbGdtCsum) > 0,
      DirNlink = (f AND SbDirNlink) > 0,
      ExtraIsize = (f AND SbExtraIsize) > 0,
      HasSnapshot = (f AND SbHasSnapshot) > 0,
      Quota = (f AND SbQuota) > 0,
      Bigalloc = (f AND SbBigalloc) > 0,
      MetadataCsum = (f AND SbMetadataCsum) > 0,
      Replica = (f AND SbReplica) > 0,
      ReadOnly = (f AND SbReadOnly) > 0,
      Project = (f AND SbProject) > 0 \<rparr>"

subsection \<open>Operating system codes and error policy\<close>

type_synonym OSCode = uint32

definition Linux :: OSCode where "Linux = 0"
definition Hurd :: OSCode where "Hurd = 1"
definition Masix :: OSCode where "Masix = 2"
definition FreeBSD :: OSCode where "FreeBSD = 3"
definition Lites :: OSCode where "Lites = 4"

type_synonym SbErrorPolicy = uint16

definition Continue :: SbErrorPolicy where "Continue = 1"
definition RemountReadOnly :: SbErrorPolicy where "RemountReadOnly = 2"
definition Panic :: SbErrorPolicy where "Panic = 3"

subsection \<open>Superblock state\<close>

definition SbUmounted :: uint16 where "SbUmounted = 0x1"
definition SbError :: uint16 where "SbError = 0x2"
definition SbOrphanRecovery :: uint16 where "SbOrphanRecovery = 0x4"

record SbState =
  Umounted :: bool
  Error :: bool
  OrphanRecovery :: bool

definition SbState_ToInt :: "SbState \<Rightarrow> uint16" where
  "SbState_ToInt s =
    (let res = 0;
         res = or_if (Umounted s) SbUmounted res;
         res = or_if (Error s) SbError res;
         res = or_if (OrphanRecovery s) SbOrphanRecovery res
     in res)"

definition SbStateFromInt :: "uint16 \<Rightarrow> SbState" where
  "SbStateFromInt state =
    \<lparr> Umounted = (state AND SbUmounted) > 0,
      Error = (state AND SbError) > 0,
      OrphanRecovery = (state AND SbOrphanRecovery) > 0 \<rparr>"

subsection \<open>Admission policy\<close>





section \<open>Auxiliary facts\<close>

lemma or_if_eq: "or_if cond c res = res OR (if cond then c else 0)"
  by (simp add: or_if_def)

lemma if_and_const:
  fixes a c :: "'a::len word"
  shows "(if p then a else 0) AND c = (if p then a AND c else 0)"
  by simp

text \<open>Testing a single bit with \<^verbatim>\<open>(n & bit) > 0\<close> and setting it again gives \<^verbatim>\<open>n & bit\<close>.\<close>

lemma single_bit_test:
  fixes n :: "'a::len word"
  shows "(if 0 < n AND 2 ^ k then 2 ^ k else 0) = n AND 2 ^ k"
proof (cases "bit n k")
  case True
  then have "n AND 2 ^ k = 2 ^ k"
    by (intro bit_word_eqI) (auto simp: bit_simps)
  moreover from True have "n AND 2 ^ k \<noteq> 0"
    by (simp add: and_exp_eq_0_iff_not_bit)
  ultimately show ?thesis by (simp add: word_greater_zero_iff)
next
  case False
  then have "n AND 2 ^ k = 0" by (simp add: and_exp_eq_0_iff_not_bit)
  then show ?thesis by simp
qed

lemma pow2_numerals:
  "(2::'a::len word) ^ 0 = 1" "(2::'a::len word) ^ 1 = 2" "(2::'a::len word) ^ 2 = 4"
  "(2::'a::len word) ^ 3 = 8" "(2::'a::len word) ^ 4 = 16" "(2::'a::len word) ^ 5 = 32"
  "(2::'a::len word) ^ 6 = 64" "(2::'a::len word) ^ 7 = 128" "(2::'a::len word) ^ 8 = 256"
  "(2::'a::len word) ^ 9 = 512" "(2::'a::len word) ^ 10 = 1024" "(2::'a::len word) ^ 11 = 2048"
  "(2::'a::len word) ^ 12 = 4096" "(2::'a::len word) ^ 13 = 8192" "(2::'a::len word) ^ 14 = 16384"
  "(2::'a::len word) ^ 15 = 32768" "(2::'a::len word) ^ 16 = 65536"
  by simp_all

lemma bit_test_numerals:
  fixes n :: "'a::len word"
  shows "(if 0 < n AND 1 then 1 else 0) = n AND 1"
    and "(if 0 < n AND 2 then 2 else 0) = n AND 2"
    and "(if 0 < n AND 4 then 4 else 0) = n AND 4"
    and "(if 0 < n AND 8 then 8 else 0) = n AND 8"
    and "(if 0 < n AND 16 then 16 else 0) = n AND 16"
    and "(if 0 < n AND 32 then 32 else 0) = n AND 32"
    and "(if 0 < n AND 64 then 64 else 0) = n AND 64"
    and "(if 0 < n AND 128 then 128 else 0) = n AND 128"
    and "(if 0 < n AND 256 then 256 else 0) = n AND 256"
    and "(if 0 < n AND 512 then 512 else 0) = n AND 512"
    and "(if 0 < n AND 1024 then 1024 else 0) = n AND 1024"
    and "(if 0 < n AND 2048 then 2048 else 0) = n AND 2048"
    and "(if 0 < n AND 4096 then 4096 else 0) = n AND 4096"
    and "(if 0 < n AND 8192 then 8192 else 0) = n AND 8192"
    and "(if 0 < n AND 16384 then 16384 else 0) = n AND 16384"
    and "(if 0 < n AND 32768 then 32768 else 0) = n AND 32768"
    and "(if 0 < n AND 65536 then 65536 else 0) = n AND 65536"
  using single_bit_test [of n 0] single_bit_test [of n 1] single_bit_test [of n 2]
    single_bit_test [of n 3] single_bit_test [of n 4] single_bit_test [of n 5]
    single_bit_test [of n 6] single_bit_test [of n 7] single_bit_test [of n 8]
    single_bit_test [of n 9] single_bit_test [of n 10] single_bit_test [of n 11]
    single_bit_test [of n 12] single_bit_test [of n 13] single_bit_test [of n 14]
    single_bit_test [of n 15] single_bit_test [of n 16]
  unfolding pow2_numerals by blast+

text \<open>A word reproduces itself under a mask exactly when it has no bit outside the mask.\<close>

lemma and_mask_id_iff:
  fixes n m :: "'a::len word"
  shows "n AND m = n \<longleftrightarrow> n AND NOT m = 0"
proof
  assume "n AND m = n"
  then have "n AND NOT m = (n AND m) AND NOT m" by simp
  also have "\<dots> = 0" by (simp add: and.assoc)
  finally show "n AND NOT m = 0" .
next
  assume h: "n AND NOT m = 0"
  have "n = n AND (m OR NOT m)" by simp
  also have "\<dots> = n AND m OR n AND NOT m" by (simp only: bit.conj_disj_distrib)
  finally show "n AND m = n" using h by simp
qed

subsection \<open>The compatible feature codec\<close>

lemmas compat_bits =
  SbDirPrealloc_def SbImagicInodes_def SbHasJournal_def SbExtAttr_def SbResizeInode_def
  SbDirIndex_def SbLazyBg_def SbExcludeInode_def SbExcludeBitmap_def SbSparseV2_def

lemma compat_bits_pos:
  "0 < SbDirPrealloc" "0 < SbImagicInodes" "0 < SbHasJournal" "0 < SbExtAttr"
  "0 < SbResizeInode" "0 < SbDirIndex" "0 < SbLazyBg" "0 < SbExcludeInode"
  "0 < SbExcludeBitmap" "0 < SbSparseV2"
  by (simp_all add: compat_bits)

lemma CompatFeatures_ToInt_or:
  "CompatFeatures_ToInt f =
     (if DirPrealloc f then SbDirPrealloc else 0) OR
     (if ImagicInodes f then SbImagicInodes else 0) OR
     (if HasJournal f then SbHasJournal else 0) OR
     (if ExtAttr f then SbExtAttr else 0) OR
     (if ResizeInode f then SbResizeInode else 0) OR
     (if DirIndex f then SbDirIndex else 0) OR
     (if LazyBg f then SbLazyBg else 0) OR
     (if ExcludeInode f then SbExcludeInode else 0) OR
     (if ExcludeBitmap f then SbExcludeBitmap else 0) OR
     (if SparseV2 f then SbSparseV2 else 0)"
  unfolding CompatFeatures_ToInt_def Let_def or_if_eq
  by (simp only: or.left_neutral or.assoc)

lemma CompatFeatures_ToInt_and:
  "CompatFeatures_ToInt f AND SbDirPrealloc = (if DirPrealloc f then SbDirPrealloc else 0)"
  "CompatFeatures_ToInt f AND SbImagicInodes = (if ImagicInodes f then SbImagicInodes else 0)"
  "CompatFeatures_ToInt f AND SbHasJournal = (if HasJournal f then SbHasJournal else 0)"
  "CompatFeatures_ToInt f AND SbExtAttr = (if ExtAttr f then SbExtAttr else 0)"
  "CompatFeatures_ToInt f AND SbResizeInode = (if ResizeInode f then SbResizeInode else 0)"
  "CompatFeatures_ToInt f AND SbDirIndex = (if DirIndex f then SbDirIndex else 0)"
  "CompatFeatures_ToInt f AND SbLazyBg = (if LazyBg f then SbLazyBg else 0)"
  "CompatFeatures_ToInt f AND SbExcludeInode = (if ExcludeInode f then SbExcludeInode else 0)"
  "CompatFeatures_ToInt f AND SbExcludeBitmap = (if ExcludeBitmap f then SbExcludeBitmap else 0)"
  "CompatFeatures_ToInt f AND SbSparseV2 = (if SparseV2 f then SbSparseV2 else 0)"
  unfolding CompatFeatures_ToInt_or
  by (simp_all add: bit.conj_disj_distrib2 if_and_const compat_bits)

lemma compat_decode_encode: "CompatFeaturesFromInt (CompatFeatures_ToInt s) = s"
  unfolding CompatFeaturesFromInt_def
  by (simp add: CompatFeatures_ToInt_and compat_bits_pos)

lemma compat_encode_decode: "CompatFeatures_ToInt (CompatFeaturesFromInt n) = n AND 0x3FF"
proof -
  have "CompatFeatures_ToInt (CompatFeaturesFromInt n) =
      n AND 0x1 OR n AND 0x2 OR n AND 0x4 OR n AND 0x8 OR n AND 0x10 OR n AND 0x20 OR
      n AND 0x40 OR n AND 0x80 OR n AND 0x100 OR n AND 0x200"
    by (simp only: CompatFeatures_ToInt_or CompatFeaturesFromInt_def CompatFeatures.select_convs compat_bits bit_test_numerals)
  also have "\<dots> = n AND
     (0x1 OR 0x2 OR 0x4 OR 0x8 OR 0x10 OR 0x20 OR 0x40 OR 0x80 OR 0x100 OR 0x200)"
    by (simp only: bit.conj_disj_distrib)
  also have "(0x1 OR 0x2 OR 0x4 OR 0x8 OR 0x10 OR 0x20 OR 0x40 OR 0x80 OR 0x100 OR 0x200 :: uint32) = 0x3FF"
    by simp
  finally show ?thesis .
qed

subsection \<open>The incompatible feature codec\<close>

lemmas incompat_bits =
  SbCompression_def SbDirentFileType_def SbRecovery_def SbJournalDev_def SbMetaBG_def
  SbExtents_def SbIs64Bit_def SbMMP_def SbFlexBg_def SbExtAttrInode_def SbDirData_def
  SbCsumSeed_def SbLargeDir_def SbInlineData_def SbEncrypted_def

lemma incompat_bits_pos:
  "0 < SbCompression" "0 < SbDirentFileType" "0 < SbRecovery" "0 < SbJournalDev"
  "0 < SbMetaBG" "0 < SbExtents" "0 < SbIs64Bit" "0 < SbMMP" "0 < SbFlexBg"
  "0 < SbExtAttrInode" "0 < SbDirData" "0 < SbCsumSeed" "0 < SbLargeDir" "0 < SbInlineData"
  "0 < SbEncrypted"
  by (simp_all add: incompat_bits)

lemma IncompatFeatures_ToInt_or:
  "IncompatFeatures_ToInt f =
     (if Compression f then SbCompression else 0) OR
     (if DirentFileType f then SbDirentFileType else 0) OR
     (if Recovery f then SbRecovery else 0) OR
     (if JournalDev f then SbJournalDev else 0) OR
     (if MetaBG f then SbMetaBG else 0) OR
     (if Extents f then SbExtents else 0) OR
     (if Is64Bit f then SbIs64Bit else 0) OR
     (if MMP f then SbMMP else 0) OR
     (if FlexBg f then SbFlexBg else 0) OR
     (if ExtAttrInode f then SbExtAttrInode else 0) OR
     (if DirData f then SbDirData else 0) OR
     (if CsumSeed f then SbCsumSeed else 0) OR
     (if LargeDir f then SbLargeDir else 0) OR
     (if InlineData f then SbInlineData else 0) OR
     (if Encrypted f then SbEncrypted else 0)"
  unfolding IncompatFeatures_ToInt_def Let_def or_if_eq
  by (simp only: or.left_neutral or.assoc)

lemma IncompatFeatures_ToInt_and:
  "IncompatFeatures_ToInt f AND SbCompression = (if Compression f then SbCompression else 0)"
  "IncompatFeatures_ToInt f AND SbDirentFileType = (if DirentFileType f then SbDirentFileType else 0)"
  "IncompatFeatures_ToInt f AND SbRecovery = (if Recovery f then SbRecovery else 0)"
  "IncompatFeatures_ToInt f AND SbJournalDev = (if JournalDev f then SbJournalDev else 0)"
  "IncompatFeatures_ToInt f AND SbMetaBG = (if MetaBG f then SbMetaBG else 0)"
  "IncompatFeatures_ToInt f AND SbExtents = (if Extents f then SbExtents else 0)"
  "IncompatFeatures_ToInt f AND SbIs64Bit = (if Is64Bit f then SbIs64Bit else 0)"
  "IncompatFeatures_ToInt f AND SbMMP = (if MMP f then SbMMP else 0)"
  "IncompatFeatures_ToInt f AND SbFlexBg = (if FlexBg f then SbFlexBg else 0)"
  "IncompatFeatures_ToInt f AND SbExtAttrInode = (if ExtAttrInode f then SbExtAttrInode else 0)"
  "IncompatFeatures_ToInt f AND SbDirData = (if DirData f then SbDirData else 0)"
  "IncompatFeatures_ToInt f AND SbCsumSeed = (if CsumSeed f then SbCsumSeed else 0)"
  "IncompatFeatures_ToInt f AND SbLargeDir = (if LargeDir f then SbLargeDir else 0)"
  "IncompatFeatures_ToInt f AND SbInlineData = (if InlineData f then SbInlineData else 0)"
  "IncompatFeatures_ToInt f AND SbEncrypted = (if Encrypted f then SbEncrypted else 0)"
  unfolding IncompatFeatures_ToInt_or
  by (simp_all add: bit.conj_disj_distrib2 if_and_const incompat_bits)

lemma incompat_decode_encode: "IncompatFeaturesFromInt (IncompatFeatures_ToInt s) = s"
  unfolding IncompatFeaturesFromInt_def
  by (simp add: IncompatFeatures_ToInt_and incompat_bits_pos)

lemma incompat_encode_decode: "IncompatFeatures_ToInt (IncompatFeaturesFromInt n) = n AND 0x1F7DF"
proof -
  have "IncompatFeatures_ToInt (IncompatFeaturesFromInt n) =
      n AND 0x1 OR n AND 0x2 OR n AND 0x4 OR n AND 0x8 OR n AND 0x10 OR n AND 0x40 OR
      n AND 0x80 OR n AND 0x100 OR n AND 0x200 OR n AND 0x400 OR n AND 0x1000 OR
      n AND 0x2000 OR n AND 0x4000 OR n AND 0x8000 OR n AND 0x10000"
    by (simp only: IncompatFeatures_ToInt_or IncompatFeaturesFromInt_def IncompatFeatures.select_convs incompat_bits bit_test_numerals)
  also have "\<dots> = n AND
     (0x1 OR 0x2 OR 0x4 OR 0x8 OR 0x10 OR 0x40 OR 0x80 OR 0x100 OR 0x200 OR 0x400 OR
      0x1000 OR 0x2000 OR 0x4000 OR 0x8000 OR 0x10000)"
    by (simp only: bit.conj_disj_distrib)
  also have "(0x1 OR 0x2 OR 0x4 OR 0x8 OR 0x10 OR 0x40 OR 0x80 OR 0x100 OR 0x200 OR 0x400 OR
      0x1000 OR 0x2000 OR 0x4000 OR 0x8000 OR 0x10000 :: uint32) = 0x1F7DF"
    by simp
  finally show ?thesis .
qed

subsection \<open>The read-only compatible feature codec\<close>

lemmas rocompat_bits =
  SbSparse_def SbLargeFile_def SbBTreeDir_def SbHugeFile_def SbGdtCsum_def SbDirNlink_def
  SbExtraIsize_def SbHasSnapshot_def SbQuota_def SbBigalloc_def SbMetadataCsum_def
  SbReplica_def SbReadOnly_def SbProject_def

lemma rocompat_bits_pos:
  "0 < SbSparse" "0 < SbLargeFile" "0 < SbBTreeDir" "0 < SbHugeFile" "0 < SbGdtCsum"
  "0 < SbDirNlink" "0 < SbExtraIsize" "0 < SbHasSnapshot" "0 < SbQuota" "0 < SbBigalloc"
  "0 < SbMetadataCsum" "0 < SbReplica" "0 < SbReadOnly" "0 < SbProject"
  by (simp_all add: rocompat_bits)

lemma RoCompatFeatures_ToInt_or:
  "RoCompatFeatures_ToInt f =
     (if Sparse f then SbSparse else 0) OR
     (if LargeFile f then SbLargeFile else 0) OR
     (if BTreeDir f then SbBTreeDir else 0) OR
     (if HugeFile f then SbHugeFile else 0) OR
     (if GdtCsum f then SbGdtCsum else 0) OR
     (if DirNlink f then SbDirNlink else 0) OR
     (if ExtraIsize f then SbExtraIsize else 0) OR
     (if HasSnapshot f then SbHasSnapshot else 0) OR
     (if Quota f then SbQuota else 0) OR
     (if Bigalloc f then SbBigalloc else 0) OR
     (if MetadataCsum f then SbMetadataCsum else 0) OR
     (if Replica f then SbReplica else 0) OR
     (if ReadOnly f then SbReadOnly else 0) OR
     (if Project f then SbProject else 0)"
  unfolding RoCompatFeatures_ToInt_def Let_def or_if_eq
  by (simp only: or.left_neutral or.assoc)

lemma RoCompatFeatures_ToInt_and:
  "RoCompatFeatures_ToInt f AND SbSparse = (if Sparse f then SbSparse else 0)"
  "RoCompatFeatures_ToInt f AND SbLargeFile = (if LargeFile f then SbLargeFile else 0)"
  "RoCompatFeatures_ToInt f AND SbBTreeDir = (if BTreeDir f then SbBTreeDir else 0)"
  "RoCompatFeatures_ToInt f AND SbHugeFile = (if HugeFile f then SbHugeFile else 0)"
  "RoCompatFeatures_ToInt f AND SbGdtCsum = (if GdtCsum f then SbGdtCsum else 0)"
  "RoCompatFeatures_ToInt f AND SbDirNlink = (if DirNlink f then SbDirNlink else 0)"
  "RoCompatFeatures_ToInt f AND SbExtraIsize = (if ExtraIsize f then SbExtraIsize else 0)"
  "RoCompatFeatures_ToInt f AND SbHasSnapshot = (if HasSnapshot f then SbHasSnapshot else 0)"
  "RoCompatFeatures_ToInt f AND SbQuota = (if Quota f then SbQuota else 0)"
  "RoCompatFeatures_ToInt f AND SbBigalloc = (if Bigalloc f then SbBigalloc else 0)"
  "RoCompatFeatures_ToInt f AND SbMetadataCsum = (if MetadataCsum f then SbMetadataCsum else 0)"
  "RoCompatFeatures_ToInt f AND SbReplica = (if Replica f then SbReplica else 0)"
  "RoCompatFeatures_ToInt f AND SbReadOnly = (if ReadOnly f then SbReadOnly else 0)"
  "RoCompatFeatures_ToInt f AND SbProject = (if Project f then SbProject else 0)"
  unfolding RoCompatFeatures_ToInt_or
  by (simp_all add: bit.conj_disj_distrib2 if_and_const rocompat_bits)

lemma rocompat_decode_encode: "RoCompatFeaturesFromInt (RoCompatFeatures_ToInt s) = s"
  unfolding RoCompatFeaturesFromInt_def
  by (simp add: RoCompatFeatures_ToInt_and rocompat_bits_pos)

lemma rocompat_encode_decode: "RoCompatFeatures_ToInt (RoCompatFeaturesFromInt n) = n AND 0x3FFF"
proof -
  have "RoCompatFeatures_ToInt (RoCompatFeaturesFromInt n) =
      n AND 0x1 OR n AND 0x2 OR n AND 0x4 OR n AND 0x8 OR n AND 0x10 OR n AND 0x20 OR
      n AND 0x40 OR n AND 0x80 OR n AND 0x100 OR n AND 0x200 OR n AND 0x400 OR
      n AND 0x800 OR n AND 0x1000 OR n AND 0x2000"
    by (simp only: RoCompatFeatures_ToInt_or RoCompatFeaturesFromInt_def RoCompatFeatures.select_convs rocompat_bits bit_test_numerals)
  also have "\<dots> = n AND
     (0x1 OR 0x2 OR 0x4 OR 0x8 OR 0x10 OR 0x20 OR 0x40 OR 0x80 OR 0x100 OR 0x200 OR
      0x400 OR 0x800 OR 0x1000 OR 0x2000)"
    by (simp only: bit.conj_disj_distrib)
  also have "(0x1 OR 0x2 OR 0x4 OR 0x8 OR 0x10 OR 0x20 OR 0x40 OR 0x80 OR 0x100 OR 0x200 OR
      0x400 OR 0x800 OR 0x1000 OR 0x2000 :: uint32) = 0x3FFF"
    by simp
  finally show ?thesis .
qed

subsection \<open>The state codec\<close>

lemmas state_bits =
  SbUmounted_def SbError_def SbOrphanRecovery_def

lemma state_bits_pos:
  "0 < SbUmounted" "0 < SbError" "0 < SbOrphanRecovery"
  by (simp_all add: state_bits)

lemma SbState_ToInt_or:
  "SbState_ToInt f =
     (if Umounted f then SbUmounted else 0) OR
     (if Error f then SbError else 0) OR
     (if OrphanRecovery f then SbOrphanRecovery else 0)"
  unfolding SbState_ToInt_def Let_def or_if_eq
  by (simp only: or.left_neutral or.assoc)

lemma SbState_ToInt_and:
  "SbState_ToInt f AND SbUmounted = (if Umounted f then SbUmounted else 0)"
  "SbState_ToInt f AND SbError = (if Error f then SbError else 0)"
  "SbState_ToInt f AND SbOrphanRecovery = (if OrphanRecovery f then SbOrphanRecovery else 0)"
  unfolding SbState_ToInt_or
  by (simp_all add: bit.conj_disj_distrib2 if_and_const state_bits)

lemma state_decode_encode: "SbStateFromInt (SbState_ToInt s) = s"
  unfolding SbStateFromInt_def
  by (simp add: SbState_ToInt_and state_bits_pos)

lemma state_encode_decode: "SbState_ToInt (SbStateFromInt n) = n AND 0x7"
proof -
  have "SbState_ToInt (SbStateFromInt n) =
      n AND 0x1 OR n AND 0x2 OR n AND 0x4"
    by (simp only: SbState_ToInt_or SbStateFromInt_def SbState.select_convs state_bits bit_test_numerals)
  also have "\<dots> = n AND
     (0x1 OR 0x2 OR 0x4)"
    by (simp only: bit.conj_disj_distrib)
  also have "(0x1 OR 0x2 OR 0x4 :: uint16) = 0x7"
    by simp
  finally show ?thesis .
qed

section \<open>Properties of the codec\<close>

subsection \<open>Encoding a decoded word\<close>

text \<open>
  C1 (as stated): for every 32-bit integer \<open>n\<close>, encoding the decoded feature set
  reproduces \<open>n\<close> exactly, also when \<open>n\<close> has bits outside the known positions.
  The word \<open>0x20000000\<close>, whose only bit is known to none of the three decoders, is
  not reproduced by any of them.
\<close>

theorem encode_decode_identity_counterexample:
  "CompatFeatures_ToInt (CompatFeaturesFromInt 0x20000000) \<noteq> 0x20000000 \<and>
   IncompatFeatures_ToInt (IncompatFeaturesFromInt 0x20000000) \<noteq> 0x20000000 \<and>
   RoCompatFeatures_ToInt (RoCompatFeaturesFromInt 0x20000000) \<noteq> 0x20000000"
  by (simp add: compat_encode_decode incompat_encode_decode rocompat_encode_decode)

text \<open>
  C1 (amended): for every 32-bit integer \<open>n\<close>, encoding the decoded feature set
  reproduces \<open>n\<close> exactly if and only if \<open>n\<close> has no bit set outside the known bit
  positions of that feature word (\<open>0x3FF\<close> for the compatible, \<open>0x1F7DF\<close> for the
  incompatible, \<open>0x3FFF\<close> for the read-only compatible features).
\<close>

theorem encode_decode_identity_iff:
  "(CompatFeatures_ToInt (CompatFeaturesFromInt n) = n \<longleftrightarrow> n AND NOT 0x3FF = 0) \<and>
   (IncompatFeatures_ToInt (IncompatFeaturesFromInt n) = n \<longleftrightarrow> n AND NOT 0x1F7DF = 0) \<and>
   (RoCompatFeatures_ToInt (RoCompatFeaturesFromInt n) = n \<longleftrightarrow> n AND NOT 0x3FFF = 0)"
  unfolding compat_encode_decode incompat_encode_decode rocompat_encode_decode
  by (intro conjI and_mask_id_iff)

text \<open>
  C2: for every 32-bit integer \<open>n\<close>, encoding the decoded feature set gives \<open>n\<close>
  masked to the known bit positions: \<open>0x3FF\<close> for the compatible, \<open>0x1F7DF\<close> for the
  incompatible and \<open>0x3FFF\<close> for the read-only compatible features.
\<close>

theorem encode_decode_masks:
  "CompatFeatures_ToInt (CompatFeaturesFromInt n) = n AND 0x3FF \<and>
   IncompatFeatures_ToInt (IncompatFeaturesFromInt n) = n AND 0x1F7DF \<and>
   RoCompatFeatures_ToInt (RoCompatFeaturesFromInt n) = n AND 0x3FFF"
  by (intro conjI compat_encode_decode incompat_encode_decode rocompat_encode_decode)

subsection \<open>Decoding an encoded feature set\<close>

text \<open>
  C3: for every \<open>CompatFeatures\<close>, \<open>IncompatFeatures\<close> and \<open>RoCompatFeatures\<close> value,
  decoding its encoding gives the value back.
\<close>

theorem decode_encode_identity:
  "CompatFeaturesFromInt (CompatFeatures_ToInt c) = c \<and>
   IncompatFeaturesFromInt (IncompatFeatures_ToInt i) = i \<and>
   RoCompatFeaturesFromInt (RoCompatFeatures_ToInt r) = r"
  by (intro conjI compat_decode_encode incompat_decode_encode rocompat_decode_encode)

subsection \<open>Field by field\<close>

text \<open>
  C4: for every 32-bit integer \<open>raw\<close> and each of the three decoders, every field of the
  decoded struct is \<open>(raw & bit) != 0\<close> for the bit constant of that field; for example
  \<open>HasJournal\<close> is \<open>(raw & 0x4) != 0\<close>, \<open>Is64Bit\<close> is \<open>(raw & 0x80) != 0\<close> and
  \<open>Bigalloc\<close> is \<open>(raw & 0x200) != 0\<close>.
\<close>

theorem decode_fields:
  "DirPrealloc (CompatFeaturesFromInt raw) = (raw AND SbDirPrealloc \<noteq> 0) \<and>
   ImagicInodes (CompatFeaturesFromInt raw) = (raw AND SbImagicInodes \<noteq> 0) \<and>
   HasJournal (CompatFeaturesFromInt raw) = (raw AND SbHasJournal \<noteq> 0) \<and>
   ExtAttr (CompatFeaturesFromInt raw) = (raw AND SbExtAttr \<noteq> 0) \<and>
   ResizeInode (CompatFeaturesFromInt raw) = (raw AND SbResizeInode \<noteq> 0) \<and>
   DirIndex (CompatFeaturesFromInt raw) = (raw AND SbDirIndex \<noteq> 0) \<and>
   LazyBg (CompatFeaturesFromInt raw) = (raw AND SbLazyBg \<noteq> 0) \<and>
   ExcludeInode (CompatFeaturesFromInt raw) = (raw AND SbExcludeInode \<noteq> 0) \<and>
   ExcludeBitmap (CompatFeaturesFromInt raw) = (raw AND SbExcludeBitmap \<noteq> 0) \<and>
   SparseV2 (CompatFeaturesFromInt raw) = (raw AND SbSparseV2 \<noteq> 0) \<and>
   Compression (IncompatFeaturesFromInt raw) = (raw AND SbCompression \<noteq> 0) \<and>
   DirentFileType (IncompatFeaturesFromInt raw) = (raw AND SbDirentFileType \<noteq> 0) \<and>
   Recovery (IncompatFeaturesFromInt raw) = (raw AND SbRecovery \<noteq> 0) \<and>
   JournalDev (IncompatFeaturesFromInt raw) = (raw AND SbJournalDev \<noteq> 0) \<and>
   MetaBG (IncompatFeaturesFromInt raw) = (raw AND SbMetaBG \<noteq> 0) \<and>
   Extents (IncompatFeaturesFromInt raw) = (raw AND SbExtents \<noteq> 0) \<and>
   Is64Bit (IncompatFeaturesFromInt raw) = (raw AND SbIs64Bit \<noteq> 0) \<and>
   MMP (IncompatFeaturesFromInt raw) = (raw AND SbMMP \<noteq> 0) \<and>
   FlexBg (IncompatFeaturesFromInt raw) = (raw AND SbFlexBg \<noteq> 0) \<and>
   ExtAttrInode (IncompatFeaturesFromInt raw) = (raw AND SbExtAttrInode \<noteq> 0) \<and>
   DirData (IncompatFeaturesFromInt raw) = (raw AND SbDirData \<noteq> 0) \<and>
   CsumSeed (IncompatFeaturesFromInt raw) = (raw AND SbCsumSeed \<noteq> 0) \<and>
   LargeDir (IncompatFeaturesFromInt raw) = (raw AND SbLargeDir \<noteq> 0) \<and>
   InlineData (IncompatFeaturesFromInt raw) = (raw AND SbInlineData \<noteq> 0) \<and>
   Encrypted (IncompatFeaturesFromInt raw) = (raw AND SbEncrypted \<noteq> 0) \<and>
   Sparse (RoCompatFeaturesFromInt raw) = (raw AND SbSparse \<noteq> 0) \<and>
   LargeFile (RoCompatFeaturesFromInt raw) = (raw AND SbLargeFile \<noteq> 0) \<and>
   BTreeDir (RoCompatFeaturesFromInt raw) = (raw AND SbBTreeDir \<noteq> 0) \<and>
   HugeFile (RoCompatFeaturesFromInt raw) = (raw AND SbHugeFile \<noteq> 0) \<and>
   GdtCsum (RoCompatFeaturesFromInt raw) = (raw AND SbGdtCsum \<noteq> 0) \<and>
   DirNlink (RoCompatFeaturesFromInt raw) = (raw AND SbDirNlink \<noteq> 0) \<and>
   ExtraIsize (RoCompatFeaturesFromInt raw) = (raw AND SbExtraIsize \<noteq> 0) \<and>
   HasSnapshot (RoCompatFeaturesFromInt raw) = (raw AND SbHasSnapshot \<noteq> 0) \<and>
   Quota (RoCompatFeaturesFromInt raw) = (raw AND SbQuota \<noteq> 0) \<and>
   Bigalloc (RoCompatFeaturesFromInt raw) = (raw AND SbBigalloc \<noteq> 0) \<and>
   MetadataCsum (RoCompatFeaturesFromInt raw) = (raw AND SbMetadataCsum \<noteq> 0) \<and>
   Replica (RoCompatFeaturesFromInt raw) = (raw AND SbReplica \<noteq> 0) \<and>
   ReadOnly (RoCompatFeaturesFromInt raw) = (raw AND SbReadOnly \<noteq> 0) \<and>
   Project (RoCompatFeaturesFromInt raw) = (raw AND SbProject \<noteq> 0) \<and>
   HasJournal (CompatFeaturesFromInt raw) = (raw AND 0x4 \<noteq> 0) \<and>
   Is64Bit (IncompatFeaturesFromInt raw) = (raw AND 0x80 \<noteq> 0) \<and>
   Bigalloc (RoCompatFeaturesFromInt raw) = (raw AND 0x200 \<noteq> 0)"
  unfolding CompatFeaturesFromInt_def IncompatFeaturesFromInt_def RoCompatFeaturesFromInt_def
  by (simp_all add: word_greater_zero_iff SbHasJournal_def SbIs64Bit_def SbBigalloc_def)

text \<open>
  C5: for every \<open>CompatFeatures\<close>, \<open>IncompatFeatures\<close> and \<open>RoCompatFeatures\<close> value,
  \<open>ToInt\<close> is the bitwise OR of the bit constants of exactly the fields that are true:
  it is the OR, over all fields, of the field's bit constant when the field is true and
  of nothing (zero) when it is false, and the bit of a field is set in the result if and
  only if the field is true.
\<close>

theorem encode_is_or_of_true_fields:
  "CompatFeatures_ToInt c =
     ((if DirPrealloc c then SbDirPrealloc else 0) OR
      (if ImagicInodes c then SbImagicInodes else 0) OR
      (if HasJournal c then SbHasJournal else 0) OR
      (if ExtAttr c then SbExtAttr else 0) OR
      (if ResizeInode c then SbResizeInode else 0) OR
      (if DirIndex c then SbDirIndex else 0) OR
      (if LazyBg c then SbLazyBg else 0) OR
      (if ExcludeInode c then SbExcludeInode else 0) OR
      (if ExcludeBitmap c then SbExcludeBitmap else 0) OR
      (if SparseV2 c then SbSparseV2 else 0)) \<and>
   IncompatFeatures_ToInt i =
     ((if Compression i then SbCompression else 0) OR
      (if DirentFileType i then SbDirentFileType else 0) OR
      (if Recovery i then SbRecovery else 0) OR
      (if JournalDev i then SbJournalDev else 0) OR
      (if MetaBG i then SbMetaBG else 0) OR
      (if Extents i then SbExtents else 0) OR
      (if Is64Bit i then SbIs64Bit else 0) OR
      (if MMP i then SbMMP else 0) OR
      (if FlexBg i then SbFlexBg else 0) OR
      (if ExtAttrInode i then SbExtAttrInode else 0) OR
      (if DirData i then SbDirData else 0) OR
      (if CsumSeed i then SbCsumSeed else 0) OR
      (if LargeDir i then SbLargeDir else 0) OR
      (if InlineData i then SbInlineData else 0) OR
      (if Encrypted i then SbEncrypted else 0)) \<and>
   RoCompatFeatures_ToInt r =
     ((if Sparse r then SbSparse else 0) OR
      (if LargeFile r then SbLargeFile else 0) OR
      (if BTreeDir r then SbBTreeDir else 0) OR
      (if HugeFile r then SbHugeFile else 0) OR
      (if GdtCsum r then SbGdtCsum else 0) OR
      (if DirNlink r then SbDirNlink else 0) OR
      (if ExtraIsize r then SbExtraIsize else 0) OR
      (if HasSnapshot r then SbHasSnapshot else 0) OR
      (if Quota r then SbQuota else 0) OR
      (if Bigalloc r then SbBigalloc else 0) OR
      (if MetadataCsum r then SbMetadataCsum else 0) OR
      (if Replica r then SbReplica else 0) OR
      (if ReadOnly r then SbReadOnly else 0) OR
      (if Project r then SbProject else 0)) \<and>
   (CompatFeatures_ToInt c AND SbDirPrealloc \<noteq> 0) = DirPrealloc c \<and>
   (CompatFeatures_ToInt c AND SbImagicInodes \<noteq> 0) = ImagicInodes c \<and>
   (CompatFeatures_ToInt c AND SbHasJournal \<noteq> 0) = HasJournal c \<and>
   (CompatFeatures_ToInt c AND SbExtAttr \<noteq> 0) = ExtAttr c \<and>
   (CompatFeatures_ToInt c AND SbResizeInode \<noteq> 0) = ResizeInode c \<and>
   (CompatFeatures_ToInt c AND SbDirIndex \<noteq> 0) = DirIndex c \<and>
   (CompatFeatures_ToInt c AND SbLazyBg \<noteq> 0) = LazyBg c \<and>
   (CompatFeatures_ToInt c AND SbExcludeInode \<noteq> 0) = ExcludeInode c \<and>
   (CompatFeatures_ToInt c AND SbExcludeBitmap \<noteq> 0) = ExcludeBitmap c \<and>
   (CompatFeatures_ToInt c AND SbSparseV2 \<noteq> 0) = SparseV2 c \<and>
   (IncompatFeatures_ToInt i AND SbCompression \<noteq> 0) = Compression i \<and>
   (IncompatFeatures_ToInt i AND SbDirentFileType \<noteq> 0) = DirentFileType i \<and>
   (IncompatFeatures_ToInt i AND SbRecovery \<noteq> 0) = Recovery i \<and>
   (IncompatFeatures_ToInt i AND SbJournalDev \<noteq> 0) = JournalDev i \<and>
   (IncompatFeatures_ToInt i AND SbMetaBG \<noteq> 0) = MetaBG i \<and>
   (IncompatFeatures_ToInt i AND SbExtents \<noteq> 0) = Extents i \<and>
   (IncompatFeatures_ToInt i AND SbIs64Bit \<noteq> 0) = Is64Bit i \<and>
   (IncompatFeatures_ToInt i AND SbMMP \<noteq> 0) = MMP i \<and>
   (IncompatFeatures_ToInt i AND SbFlexBg \<noteq> 0) = FlexBg i \<and>
   (IncompatFeatures_ToInt i AND SbExtAttrInode \<noteq> 0) = ExtAttrInode i \<and>
   (IncompatFeatures_ToInt i AND SbDirData \<noteq> 0) = DirData i \<and>
   (IncompatFeatures_ToInt i AND SbCsumSeed \<noteq> 0) = CsumSeed i \<and>
   (IncompatFeatures_ToInt i AND SbLargeDir \<noteq> 0) = LargeDir i \<and>
   (IncompatFeatures_ToInt i AND SbInlineData \<noteq> 0) = InlineData i \<and>
   (IncompatFeatures_ToInt i AND SbEncrypted \<noteq> 0) = Encrypted i \<and>
   (RoCompatFeatures_ToInt r AND SbSparse \<noteq> 0) = Sparse r \<and>
   (RoCompatFeatures_ToInt r AND SbLargeFile \<noteq> 0) = LargeFile r \<and>
   (RoCompatFeatures_ToInt r AND SbBTreeDir \<noteq> 0) = BTreeDir r \<and>
   (RoCompatFeatures_ToInt r AND SbHugeFile \<noteq> 0) = HugeFile r \<and>
   (RoCompatFeatures_ToInt r AND SbGdtCsum \<noteq> 0) = GdtCsum r \<and>
   (RoCompatFeatures_ToInt r AND SbDirNlink \<noteq> 0) = DirNlink r \<and>
   (RoCompatFeatures_ToInt r AND SbExtraIsize \<noteq> 0) = ExtraIsize r \<and>
   (RoCompatFeatures_ToInt r AND SbHasSnapshot \<noteq> 0) = HasSnapshot r \<and>
   (RoCompatFeatures_ToInt r AND SbQuota \<noteq> 0) = Quota r \<and>
   (RoCompatFeatures_ToInt r AND SbBigalloc \<noteq> 0) = Bigalloc r \<and>
   (RoCompatFeatures_ToInt r AND SbMetadataCsum \<noteq> 0) = MetadataCsum r \<and>
   (RoCompatFeatures_ToInt r AND SbReplica \<noteq> 0) = Replica r \<and>
   (RoCompatFeatures_ToInt r AND SbReadOnly \<noteq> 0) = ReadOnly r \<and>
   (RoCompatFeatures_ToInt r AND SbProject \<noteq> 0) = Project r"
  unfolding CompatFeatures_ToInt_and IncompatFeatures_ToInt_and RoCompatFeatures_ToInt_and
  by (intro conjI CompatFeatures_ToInt_or IncompatFeatures_ToInt_or RoCompatFeatures_ToInt_or)
    (simp_all add: compat_bits incompat_bits rocompat_bits)

subsection \<open>Admission\<close>





subsection \<open>Concrete words\<close>

text \<open>
  C7: decoding the incompatible word \<open>0x40\<close> gives the feature set with \<open>Extents\<close>
  true and every other field false; decoding the read-only-compatible word \<open>0x10\<close>
  gives the feature set with \<open>GdtCsum\<close> true and every other field false.
\<close>

theorem decode_scenario_B:
  "IncompatFeaturesFromInt 0x40 =
     \<lparr> Compression = False, DirentFileType = False, Recovery = False, JournalDev = False,
       MetaBG = False, Extents = True, Is64Bit = False, MMP = False, FlexBg = False,
       ExtAttrInode = False, DirData = False, CsumSeed = False, LargeDir = False,
       InlineData = False, Encrypted = False \<rparr> \<and>
   RoCompatFeaturesFromInt 0x10 =
     \<lparr> Sparse = False, LargeFile = False, BTreeDir = False, HugeFile = False,
       GdtCsum = True, DirNlink = False, ExtraIsize = False, HasSnapshot = False,
       Quota = False, Bigalloc = False, MetadataCsum = False, Replica = False,
       ReadOnly = False, Project = False \<rparr>"
  by (simp add: IncompatFeaturesFromInt_def RoCompatFeaturesFromInt_def incompat_bits rocompat_bits)

subsection \<open>Enumerations\<close>

text \<open>
  C8: the error policies are \<open>Continue = 1\<close>, \<open>RemountReadOnly = 2\<close> and \<open>Panic = 3\<close>;
  the creator operating systems are \<open>Linux = 0\<close>, \<open>Hurd = 1\<close>, \<open>Masix = 2\<close>,
  \<open>FreeBSD = 3\<close> and \<open>Lites = 4\<close>.
\<close>

theorem enumeration_values:
  "unat Continue = 1 \<and> unat RemountReadOnly = 2 \<and> unat Panic = 3 \<and>
   unat Linux = 0 \<and> unat Hurd = 1 \<and> unat Masix = 2 \<and> unat FreeBSD = 3 \<and> unat Lites = 4"
  by (simp add: Continue_def RemountReadOnly_def Panic_def
      Linux_def Hurd_def Masix_def FreeBSD_def Lites_def)

subsection \<open>Superblock state\<close>

text \<open>
  C9: the state codec obeys the same laws: decoding the encoding of a state gives the
  state back, and encoding the decoding of a 16-bit integer \<open>n\<close> gives \<open>n AND 0x7\<close>,
  the three known state bits being \<open>Umounted = 0x1\<close>, \<open>Error = 0x2\<close> and
  \<open>OrphanRecovery = 0x4\<close>.
\<close>

theorem state_codec_laws:
  "SbStateFromInt (SbState_ToInt s) = s \<and>
   SbState_ToInt (SbStateFromInt n) = n AND 0x7 \<and>
   SbUmounted = 0x1 \<and> SbError = 0x2 \<and> SbOrphanRecovery = 0x4"
  by (simp add: state_decode_encode state_encode_decode state_bits)

subsection \<open>The gaps in the incompatible feature bits\<close>

text \<open>
  C10: the bits \<open>0x20\<close> and \<open>0x800\<close> belong to no field of the incompatible feature
  set: the encoder never sets them, and the decoder does not look at them, so that
  \<open>IncompatFeaturesFromInt n\<close> is \<open>IncompatFeaturesFromInt (n AND NOT (0x20 OR 0x800))\<close>
  for every \<open>n\<close>. In particular the word \<open>0x20\<close> decodes to the all-false set, although
  its neighbours \<open>0x10\<close> (\<open>MetaBG\<close>) and \<open>0x40\<close> (\<open>Extents\<close>) are known bits.
\<close>

theorem incompat_unassigned_bits:
  "IncompatFeaturesFromInt n = IncompatFeaturesFromInt (n AND NOT (0x20 OR 0x800)) \<and>
   IncompatFeatures_ToInt i AND (0x20 OR 0x800) = 0 \<and>
   IncompatFeaturesFromInt 0x20 =
     \<lparr> Compression = False, DirentFileType = False, Recovery = False, JournalDev = False,
       MetaBG = False, Extents = False, Is64Bit = False, MMP = False, FlexBg = False,
       ExtAttrInode = False, DirData = False, CsumSeed = False, LargeDir = False,
       InlineData = False, Encrypted = False \<rparr> \<and>
   MetaBG (IncompatFeaturesFromInt 0x10) \<and> Extents (IncompatFeaturesFromInt 0x40)"
proof -
  have "IncompatFeaturesFromInt n = IncompatFeaturesFromInt (n AND NOT (0x20 OR 0x800))"
    by (simp add: IncompatFeaturesFromInt_def incompat_bits and.assoc)
  moreover have "IncompatFeatures_ToInt i AND (0x20 OR 0x800) = 0"
    unfolding IncompatFeatures_ToInt_or
    by (simp add: bit.conj_disj_distrib2 if_and_const incompat_bits)
  moreover have "IncompatFeaturesFromInt 0x20 =
     \<lparr> Compression = False, DirentFileType = False, Recovery = False, JournalDev = False,
       MetaBG = False, Extents = False, Is64Bit = False, MMP = False, FlexBg = False,
       ExtAttrInode = False, DirData = False, CsumSeed = False, LargeDir = False,
       InlineData = False, Encrypted = False \<rparr>"
    by (simp add: IncompatFeaturesFromInt_def incompat_bits)
  moreover have "MetaBG (IncompatFeaturesFromInt 0x10)" "Extents (IncompatFeaturesFromInt 0x40)"
    by (simp_all add: IncompatFeaturesFromInt_def incompat_bits)
  ultimately show ?thesis by (intro conjI)
qed

end
